theory Spec2Isabelle
  imports Complex_Main
begin

section \<open>JavaScript values handled by the client\<close>

text \<open>
  The client is browser JavaScript: \<^verbatim>\<open>frontend/src/services/cyberark-auth.js\<close> (the
  authentication service) and \<^verbatim>\<open>frontend/src/api-gateway.js\<close> (the JSON-RPC client).
  A JavaScript string is an Isabelle \<open>string\<close>, one character per UTF-16 code unit
  (code units up to U+00FF). Console output is not modelled.
\<close>

subsection \<open>Numbers and their decimal text\<close>

text \<open>
  The numbers of the authentication service are whole numbers of milliseconds and seconds:
  they are integers here, exact as the doubles of the source are below \<open>2^53\<close>.
  \<open>None\<close> stands for \<open>NaN\<close>, which arithmetic on \<open>undefined\<close> yields.
\<close>

type_synonym js_number = "int option"

definition digit_char :: "nat \<Rightarrow> char" where
  "digit_char d = ''0123456789'' ! d"

fun show_nat :: "nat \<Rightarrow> string" where
  "show_nat n = (if n < 10 then [digit_char n] else show_nat (n div 10) @ [digit_char (n mod 10)])"

declare show_nat.simps [simp del]

definition show_int :: "int \<Rightarrow> string" where
  "show_int i = (if i < 0 then CHR ''-'' # show_nat (nat (- i)) else show_nat (nat i))"

text \<open>\<^verbatim>\<open>Number.prototype.toString\<close> and the coercion of a number to a string.\<close>

definition number_toString :: "js_number \<Rightarrow> string" where
  "number_toString x = (case x of None \<Rightarrow> ''NaN'' | Some i \<Rightarrow> show_int i)"

text \<open>
  \<^verbatim>\<open>parseInt(s)\<close> with no radix: leading white space is skipped, a sign is read, the
  prefix \<open>0x\<close> selects radix 16, and the longest run of digits is the value; with no
  digit the result is \<open>NaN\<close>.
\<close>

definition is_white :: "char \<Rightarrow> bool" where
  "is_white c = (c \<in> set [CHR 0x09, CHR 0x0A, CHR 0x0B, CHR 0x0C, CHR 0x0D, CHR 0x20, CHR 0xA0])"

definition digit_value :: "char \<Rightarrow> nat option" where
  "digit_value c =
     (let n = (of_char c :: nat) in
      if 48 \<le> n \<and> n \<le> 57 then Some (n - 48)
      else if 97 \<le> n \<and> n \<le> 122 then Some (n - 87)
      else if 65 \<le> n \<and> n \<le> 90 then Some (n - 55)
      else None)"

definition radix_digit :: "nat \<Rightarrow> char \<Rightarrow> nat option" where
  "radix_digit r c = (case digit_value c of None \<Rightarrow> None | Some d \<Rightarrow> if d < r then Some d else None)"

fun parse_digits :: "nat \<Rightarrow> string \<Rightarrow> nat option \<Rightarrow> nat option" where
  "parse_digits r [] acc = acc"
| "parse_digits r (c # cs) acc =
     (case radix_digit r c of
        None \<Rightarrow> acc
      | Some d \<Rightarrow> parse_digits r cs (Some (r * (case acc of None \<Rightarrow> 0 | Some a \<Rightarrow> a) + d)))"

definition parseInt :: "string \<Rightarrow> js_number" where
  "parseInt s =
     (let s1 = dropWhile is_white s;
          neg = (take 1 s1 = ''-'');
          s2 = (if take 1 s1 = ''+'' \<or> take 1 s1 = ''-'' then drop 1 s1 else s1);
          hex = (take 2 s2 = ''0x'' \<or> take 2 s2 = ''0X'');
          r = (if hex then 16 else 10);
          s3 = (if hex then drop 2 s2 else s2)
      in case parse_digits r s3 None of
           None \<Rightarrow> None
         | Some v \<Rightarrow> Some (if neg then - int v else int v))"

subsection \<open>JSON values\<close>

text \<open>
  What \<^verbatim>\<open>response.json()\<close> and \<^verbatim>\<open>JSON.parse\<close> return, and \<open>undefined\<close>, which reading
  a missing property yields. A number is a finite value, a rational here; an object is the
  list of its own properties, each name once.
\<close>

datatype jsval =
    JUndefined
  | JNull
  | JBool bool
  | JNumber rat
  | JString string
  | JArray "jsval list"
  | JObject "(string \<times> jsval) list"

text \<open>Truthiness, as \<^verbatim>\<open>if (v)\<close>, \<^verbatim>\<open>!v\<close>, \<^verbatim>\<open>a && b\<close> and \<^verbatim>\<open>a || b\<close> test it.\<close>

fun truthy :: "jsval \<Rightarrow> bool" where
  "truthy JUndefined = False"
| "truthy JNull = False"
| "truthy (JBool b) = b"
| "truthy (JNumber x) = (x \<noteq> 0)"
| "truthy (JString s) = (s \<noteq> [])"
| "truthy (JArray xs) = True"
| "truthy (JObject kvs) = True"

text \<open>
  Reading a property. The source reads \<^verbatim>\<open>error\<close>, \<^verbatim>\<open>result\<close>, \<^verbatim>\<open>content\<close>,
  \<^verbatim>\<open>text\<close>, \<^verbatim>\<open>output\<close>, \<^verbatim>\<open>tools\<close>, \<^verbatim>\<open>message\<close> and \<^verbatim>\<open>length\<close>: of these only
  \<^verbatim>\<open>length\<close> exists on arrays and strings, and none is inherited by an object.
  Reading a property of \<open>null\<close> or \<open>undefined\<close> throws a \<^verbatim>\<open>TypeError\<close>.
\<close>

datatype error =
    ProviderError string
  | MissingCodeError
  | CsrfError
  | TokenExchangeError string
  | AuthenticationRequiredError
  | SessionExpiredError
  | GatewayHttpError nat string
  | GatewayRpcError jsval
  | MalformedToolResponseError
  | FetchRejected string
  | BodySyntaxError string
  | NullishTypeError jsval string

fun get_prop :: "jsval \<Rightarrow> string \<Rightarrow> error + jsval" where
  "get_prop JUndefined k = Inl (NullishTypeError JUndefined k)"
| "get_prop JNull k = Inl (NullishTypeError JNull k)"
| "get_prop (JBool b) k = Inr JUndefined"
| "get_prop (JNumber x) k = Inr JUndefined"
| "get_prop (JString s) k = Inr (if k = ''length'' then JNumber (of_nat (length s)) else JUndefined)"
| "get_prop (JArray xs) k = Inr (if k = ''length'' then JNumber (of_nat (length xs)) else JUndefined)"
| "get_prop (JObject kvs) k = Inr (case map_of kvs k of None \<Rightarrow> JUndefined | Some v \<Rightarrow> v)"

text \<open>Reading element \<open>i\<close>, as \<^verbatim>\<open>content[0]\<close> does.\<close>

fun get_index :: "jsval \<Rightarrow> nat \<Rightarrow> error + jsval" where
  "get_index JUndefined i = Inl (NullishTypeError JUndefined (show_nat i))"
| "get_index JNull i = Inl (NullishTypeError JNull (show_nat i))"
| "get_index (JBool b) i = Inr JUndefined"
| "get_index (JNumber x) i = Inr JUndefined"
| "get_index (JString s) i = Inr (if i < length s then JString [s ! i] else JUndefined)"
| "get_index (JArray xs) i = Inr (if i < length xs then xs ! i else JUndefined)"
| "get_index (JObject kvs) i = Inr (case map_of kvs (show_nat i) of None \<Rightarrow> JUndefined | Some v \<Rightarrow> v)"

text \<open>Optional chaining \<^verbatim>\<open>v?.k\<close>: \<open>undefined\<close> when \<open>v\<close> is \<open>null\<close> or \<open>undefined\<close>.\<close>

fun get_prop_optional :: "jsval \<Rightarrow> string \<Rightarrow> error + jsval" where
  "get_prop_optional JUndefined k = Inr JUndefined"
| "get_prop_optional JNull k = Inr JUndefined"
| "get_prop_optional v k = get_prop v k"

text \<open>
  The functions of the JavaScript engine that the source calls and this theory does not
  define: \<^verbatim>\<open>JSON.parse\<close> of a value (\<open>None\<close> when it throws), \<^verbatim>\<open>JSON.stringify\<close>, the
  coercion of a value to a string, the message text of a \<^verbatim>\<open>TypeError\<close> for a
  property of \<open>null\<close> or \<open>undefined\<close>, and that of a \<^verbatim>\<open>SyntaxError\<close> for a body
  that is not JSON.
\<close>

record engine =
  JSON_parse :: "jsval \<Rightarrow> jsval option"
  JSON_stringify :: "jsval \<Rightarrow> string"
  ToString :: "jsval \<Rightarrow> string"
  nullish_message :: "jsval \<Rightarrow> string \<Rightarrow> string"
  syntax_message :: "string \<Rightarrow> string"

text \<open>
  \<^verbatim>\<open>error.message\<close>. Each error of the source is \<^verbatim>\<open>new Error(text)\<close>; the constructor
  names follow the specification's names for the place that throws:
  \<^item> \<open>ProviderError\<close>: \<^verbatim>\<open>OAuth error: ${error}\<close>;
  \<^item> \<open>MissingCodeError\<close>: \<^verbatim>\<open>No authorization code received\<close>;
  \<^item> \<open>CsrfError\<close>: \<^verbatim>\<open>Invalid state parameter - possible CSRF attack\<close>;
  \<^item> \<open>TokenExchangeError\<close>: \<^verbatim>\<open>Token exchange failed: ${errorText}\<close>;
  \<^item> \<open>AuthenticationRequiredError\<close>: \<^verbatim>\<open>Authentication required\<close>;
  \<^item> \<open>SessionExpiredError\<close>: \<^verbatim>\<open>Session expired, please log in again\<close>;
  \<^item> \<open>GatewayHttpError\<close>: \<^verbatim>\<open>Gateway error ${response.status}: ${errorText}\<close>;
  \<^item> \<open>GatewayRpcError\<close>: \<^verbatim>\<open>Gateway error: ${data.error.message || JSON.stringify(data.error)}\<close>;
  \<^item> \<open>MalformedToolResponseError\<close>: \<^verbatim>\<open>Invalid response format from agent\<close>.
  The other three are thrown by the browser: \<^verbatim>\<open>fetch\<close> rejecting, \<^verbatim>\<open>response.json()\<close>
  rejecting, and a property read of \<open>null\<close> or \<open>undefined\<close>.
\<close>

fun message :: "engine \<Rightarrow> error \<Rightarrow> string" where
  "message E (ProviderError e) = ''OAuth error: '' @ e"
| "message E MissingCodeError = ''No authorization code received''"
| "message E CsrfError = ''Invalid state parameter - possible CSRF attack''"
| "message E (TokenExchangeError t) = ''Token exchange failed: '' @ t"
| "message E AuthenticationRequiredError = ''Authentication required''"
| "message E SessionExpiredError = ''Session expired, please log in again''"
| "message E (GatewayHttpError st t) = ''Gateway error '' @ show_nat st @ '': '' @ t"
| "message E (GatewayRpcError err) =
     ''Gateway error: '' @
       (case get_prop err ''message'' of
          Inl e \<Rightarrow> nullish_message E err ''message''
        | Inr m \<Rightarrow> if truthy m then ToString E m else JSON_stringify E err)"
| "message E MalformedToolResponseError = ''Invalid response format from agent''"
| "message E (FetchRejected m) = m"
| "message E (BodySyntaxError t) = syntax_message E t"
| "message E (NullishTypeError v k) = nullish_message E v k"

section \<open>The browser\<close>

text \<open>
  \<^verbatim>\<open>localStorage\<close> and \<^verbatim>\<open>sessionStorage\<close> map keys to strings; \<^verbatim>\<open>getItem\<close> of a
  missing key is \<open>null\<close>, here \<open>None\<close>.
\<close>

type_synonym storage = "string \<rightharpoonup> string"

definition getItem :: "storage \<Rightarrow> string \<Rightarrow> string option" where
  "getItem st k = st k"

definition setItem :: "storage \<Rightarrow> string \<Rightarrow> string \<Rightarrow> storage" where
  "setItem st k v = st(k \<mapsto> v)"

definition removeItem :: "storage \<Rightarrow> string \<Rightarrow> storage" where
  "removeItem st k = st(k := None)"

text \<open>
  A string that may be \<open>null\<close> (what \<^verbatim>\<open>getItem\<close> and \<^verbatim>\<open>URLSearchParams.get\<close> return):
  its truthiness, its text in a template literal, and the value it is as a JSON member.
\<close>

definition string_truthy :: "string option \<Rightarrow> bool" where
  "string_truthy x = (case x of None \<Rightarrow> False | Some s \<Rightarrow> s \<noteq> [])"

definition null_text :: "string option \<Rightarrow> string" where
  "null_text x = (case x of None \<Rightarrow> ''null'' | Some s \<Rightarrow> s)"

definition null_json :: "string option \<Rightarrow> jsval" where
  "null_json x = (case x of None \<Rightarrow> JNull | Some s \<Rightarrow> JString s)"

datatype body = JsonBody jsval | FormBody "(string \<times> string) list"

record http_request =
  req_url :: string
  req_verb :: string
  req_headers :: "(string \<times> string) list"
  req_body :: body

text \<open>
  A response: its status, its body as \<^verbatim>\<open>response.text()\<close> gives it, and its body as
  \<^verbatim>\<open>response.json()\<close> gives it (\<open>None\<close> when the body is not JSON and \<^verbatim>\<open>json()\<close>
  rejects). \<^verbatim>\<open>response.ok\<close> is a status from 200 to 299.
\<close>

record 'a http_response =
  resp_status :: nat
  resp_text :: string
  resp_json :: "'a option"

definition response_ok :: "'a http_response \<Rightarrow> bool" where
  "response_ok r = (200 \<le> resp_status r \<and> resp_status r \<le> 299)"

datatype 'a fetch_result = Rejected string | Responded "'a http_response"

text \<open>
  What the outside does during one operation: the reading of \<^verbatim>\<open>Date.now()\<close>, the value
  of \<^verbatim>\<open>Math.floor(Math.random() * chars.length)\<close> at iteration \<open>i\<close> of the loop of
  \<^verbatim>\<open>generateRandomString\<close>, and the answer to a request (\<open>Rejected\<close> when \<^verbatim>\<open>fetch\<close>
  rejects, with the message of its error).
\<close>

record 'a env =
  env_now :: nat
  env_random :: "nat \<Rightarrow> nat"
  env_fetch :: "http_request \<Rightarrow> 'a fetch_result"

text \<open>
  The state an operation reads and writes: the two stores, the query of the page's URL
  (\<^verbatim>\<open>window.location.search\<close> as \<^verbatim>\<open>URLSearchParams\<close> reads it: decoded pairs in
  order), the address last assigned to \<^verbatim>\<open>window.location.href\<close>, and the requests
  issued with \<^verbatim>\<open>fetch\<close> so far, oldest first.
\<close>

record browser =
  localStorage :: storage
  sessionStorage :: storage
  location_search :: "(string \<times> string) list"
  location_href :: "string option"
  requests :: "http_request list"

text \<open>\<^verbatim>\<open>URLSearchParams.get\<close>: the value of the first pair with that name, or \<open>null\<close>.\<close>

definition params_get :: "(string \<times> string) list \<Rightarrow> string \<Rightarrow> string option" where
  "params_get q k = map_of q k"

text \<open>
  \<^verbatim>\<open>URLSearchParams.toString\<close>: the pairs in \<^verbatim>\<open>application/x-www-form-urlencoded\<close>
  form. A space becomes \<open>+\<close>; letters, digits and \<open>* - . _\<close> stay; every other byte of
  the UTF-8 encoding becomes \<open>%XX\<close>.
\<close>

definition hex_digit :: "nat \<Rightarrow> char" where
  "hex_digit d = ''0123456789ABCDEF'' ! d"

definition percent_byte :: "nat \<Rightarrow> string" where
  "percent_byte b = [CHR ''%'', hex_digit (b div 16), hex_digit (b mod 16)]"

definition utf8_bytes :: "char \<Rightarrow> nat list" where
  "utf8_bytes c = (let n = (of_char c :: nat) in if n < 128 then [n] else [192 + n div 64, 128 + n mod 64])"

definition form_unreserved :: "nat \<Rightarrow> bool" where
  "form_unreserved n =
     (n = 42 \<or> n = 45 \<or> n = 46 \<or> n = 95 \<or> (48 \<le> n \<and> n \<le> 57) \<or> (65 \<le> n \<and> n \<le> 90) \<or> (97 \<le> n \<and> n \<le> 122))"

definition form_encode_char :: "char \<Rightarrow> string" where
  "form_encode_char c =
     (let n = (of_char c :: nat) in
      if n = 32 then ''+''
      else if form_unreserved n then [c]
      else concat (map percent_byte (utf8_bytes c)))"

definition form_encode :: "string \<Rightarrow> string" where
  "form_encode s = concat (map form_encode_char s)"

fun join_amp :: "string list \<Rightarrow> string" where
  "join_amp [] = []"
| "join_amp [x] = x"
| "join_amp (x # y # ys) = x @ ''&'' @ join_amp (y # ys)"

definition URLSearchParams_toString :: "(string \<times> string) list \<Rightarrow> string" where
  "URLSearchParams_toString ps = join_amp (map (\<lambda>(k, v). form_encode k @ ''='' @ form_encode v) ps)"

section \<open>The authentication service\<close>

text \<open>
  The values the constructor reads from the build's environment, and the page's origin.
\<close>

record config =
  clientId :: string
  authEndpoint :: string
  tokenEndpoint :: string
  origin :: string
  apiBaseUrl :: string

definition redirectUri :: "config \<Rightarrow> string" where
  "redirectUri cfg = origin cfg @ ''/callback''"

definition getAccessToken :: "browser \<Rightarrow> string option" where
  "getAccessToken w = getItem (localStorage w) ''cyberark_access_token''"

text \<open>
  \<^verbatim>\<open>isAuthenticated()\<close>; \<open>now\<close> is what \<^verbatim>\<open>Date.now()\<close> returns. The source only reads
  the store, so the embedding returns the boolean and no new state.
\<close>

definition isAuthenticated :: "nat \<Rightarrow> browser \<Rightarrow> bool" where
  "isAuthenticated now w =
     (case getAccessToken w of
        None \<Rightarrow> False
      | Some token \<Rightarrow>
          if token = [] then False
          else (case getItem (localStorage w) ''cyberark_token_expiry'' of
                  None \<Rightarrow> False
                | Some expiry \<Rightarrow>
                    if expiry = [] then False
                    else (case parseInt expiry of None \<Rightarrow> False | Some e \<Rightarrow> int now < e)))"

text \<open>\<^verbatim>\<open>generateRandomString(length)\<close>: the loop appends one character per iteration.\<close>

definition chars :: string where
  "chars = ''ABCDEFGHIJKLMNOPQRSTUVWXYZabcdefghijklmnopqrstuvwxyz0123456789''"

definition charAt :: "string \<Rightarrow> nat \<Rightarrow> string" where
  "charAt s i = (if i < length s then [s ! i] else [])"

function generateRandomString_loop :: "(nat \<Rightarrow> nat) \<Rightarrow> nat \<Rightarrow> nat \<Rightarrow> string \<Rightarrow> string" where
  "generateRandomString_loop rnd len i result =
     (if i < len then generateRandomString_loop rnd len (Suc i) (result @ charAt chars (rnd i))
      else result)"
  by pat_completeness auto
termination
  by (relation "measure (\<lambda>(rnd, len, i, result). len - i)") auto

declare generateRandomString_loop.simps [simp del]

definition generateRandomString :: "(nat \<Rightarrow> nat) \<Rightarrow> nat \<Rightarrow> string" where
  "generateRandomString rnd len = generateRandomString_loop rnd len 0 []"

text \<open>\<^verbatim>\<open>login()\<close>: stores a fresh state and sends the page to the authorization endpoint.\<close>

definition login :: "config \<Rightarrow> 'a env \<Rightarrow> browser \<Rightarrow> browser" where
  "login cfg env w =
     (let state = generateRandomString (env_random env) 32;
          w1 = w\<lparr>sessionStorage := setItem (sessionStorage w) ''oauth_state'' state\<rparr>;
          params = [(''client_id'', clientId cfg),
                    (''redirect_uri'', redirectUri cfg),
                    (''response_type'', ''code''),
                    (''scope'', ''openid profile email''),
                    (''state'', state)];
          authUrl = authEndpoint cfg @ ''?'' @ URLSearchParams_toString params
      in w1\<lparr>location_href := Some authUrl\<rparr>)"

text \<open>
  The JSON body of the token endpoint's answer, as the source reads it: a member that is
  missing is \<open>None\<close> (\<open>undefined\<close> in the source), a token is a string and
  \<^verbatim>\<open>expires_in\<close> a whole number of seconds.
\<close>

record token_data =
  access_token :: "string option"
  refresh_token :: "string option"
  expires_in :: "int option"

text \<open>\<^verbatim>\<open>setItem\<close> coerces its value to a string: \<open>undefined\<close> is stored as that word.\<close>

definition undefined_text :: "string option \<Rightarrow> string" where
  "undefined_text x = (case x of None \<Rightarrow> ''undefined'' | Some s \<Rightarrow> s)"

definition js_times :: "js_number \<Rightarrow> js_number \<Rightarrow> js_number" where
  "js_times x y = (case x of None \<Rightarrow> None | Some a \<Rightarrow> (case y of None \<Rightarrow> None | Some b \<Rightarrow> Some (a * b)))"

definition js_plus :: "js_number \<Rightarrow> js_number \<Rightarrow> js_number" where
  "js_plus x y = (case x of None \<Rightarrow> None | Some a \<Rightarrow> (case y of None \<Rightarrow> None | Some b \<Rightarrow> Some (a + b)))"

text \<open>\<^verbatim>\<open>storeTokens(accessToken, refreshToken, expiresIn)\<close> of \<^verbatim>\<open>cyberark-auth.js\<close>.\<close>

definition storeTokens :: "nat \<Rightarrow> string option \<Rightarrow> string option \<Rightarrow> js_number \<Rightarrow> browser \<Rightarrow> browser" where
  "storeTokens now accessToken refreshToken expiresIn w =
     (let expiryTime = js_plus (Some (int now)) (js_times expiresIn (Some 1000));
          ls1 = setItem (localStorage w) ''cyberark_access_token'' (undefined_text accessToken);
          ls2 = setItem ls1 ''cyberark_token_expiry'' (number_toString expiryTime)
      in w\<lparr>localStorage := ls2\<rparr>)"

text \<open>
  \<^verbatim>\<open>handleCallback()\<close>. The request carries \<^verbatim>\<open>JSON.stringify({code, redirect_uri})\<close>,
  kept here as the value that is serialised.
\<close>

definition token_exchange_request :: "config \<Rightarrow> string option \<Rightarrow> http_request" where
  "token_exchange_request cfg code =
     \<lparr>req_url = apiBaseUrl cfg @ ''/auth/token'',
      req_verb = ''POST'',
      req_headers = [(''Content-Type'', ''application/json'')],
      req_body = JsonBody (JObject [(''code'', null_json code), (''redirect_uri'', JString (redirectUri cfg))])\<rparr>"

definition handleCallback :: "config \<Rightarrow> token_data env \<Rightarrow> browser \<Rightarrow> (error + string option) \<times> browser" where
  "handleCallback cfg env w =
     (let params = location_search w;
          code = params_get params ''code'';
          state = params_get params ''state'';
          err = params_get params ''error''
      in if string_truthy err then (Inl (ProviderError (null_text err)), w)
         else if \<not> string_truthy code then (Inl MissingCodeError, w)
         else
           let savedState = getItem (sessionStorage w) ''oauth_state'' in
           if state \<noteq> savedState then (Inl CsrfError, w)
           else
             let req = token_exchange_request cfg code;
                 w1 = w\<lparr>requests := requests w @ [req]\<rparr>
             in case env_fetch env req of
                  Rejected m \<Rightarrow> (Inl (FetchRejected m), w1)
                | Responded tokenResponse \<Rightarrow>
                    if \<not> response_ok tokenResponse
                    then (Inl (TokenExchangeError (resp_text tokenResponse)), w1)
                    else (case resp_json tokenResponse of
                            None \<Rightarrow> (Inl (BodySyntaxError (resp_text tokenResponse)), w1)
                          | Some tokenData \<Rightarrow>
                              let w2 = storeTokens (env_now env) (access_token tokenData)
                                         (refresh_token tokenData) (expires_in tokenData) w1;
                                  w3 = w2\<lparr>sessionStorage := removeItem (sessionStorage w2) ''oauth_state''\<rparr>
                              in (Inr (access_token tokenData), w3)))"

text \<open>\<^verbatim>\<open>logout()\<close>.\<close>

definition logout :: "browser \<Rightarrow> browser" where
  "logout w =
     (let ls1 = removeItem (localStorage w) ''cyberark_access_token'';
          ls2 = removeItem ls1 ''cyberark_token_expiry''
      in w\<lparr>localStorage := ls2,
            sessionStorage := removeItem (sessionStorage w) ''oauth_state''\<rparr>)"

section \<open>The gateway client\<close>

definition GATEWAY_URL :: string where
  "GATEWAY_URL = ''https://<your-gateway-id>.gateway.bedrock-agentcore.<region>.amazonaws.com/mcp''"

text \<open>The \<^verbatim>\<open>id\<close> of a request: \<^verbatim>\<open>${method}-${Date.now()}\<close>.\<close>

definition request_id :: "string \<Rightarrow> nat \<Rightarrow> string" where
  "request_id mth now = mth @ ''-'' @ show_nat now"

definition payload :: "string \<Rightarrow> jsval \<Rightarrow> nat \<Rightarrow> jsval" where
  "payload mth params now =
     JObject [(''jsonrpc'', JString ''2.0''),
              (''id'', JString (request_id mth now)),
              (''method'', JString mth),
              (''params'', params)]"

definition gateway_request :: "string \<Rightarrow> jsval \<Rightarrow> http_request" where
  "gateway_request token pl =
     \<lparr>req_url = GATEWAY_URL,
      req_verb = ''POST'',
      req_headers = [(''Content-Type'', ''application/json''), (''Authorization'', ''Bearer '' @ token)],
      req_body = JsonBody pl\<rparr>"

text \<open>
  \<^verbatim>\<open>callGateway(method, params)\<close>. Its \<^verbatim>\<open>catch\<close> logs the error and throws it again,
  so an error leaves the function as it was thrown.
\<close>

definition callGateway :: "config \<Rightarrow> jsval env \<Rightarrow> string \<Rightarrow> jsval \<Rightarrow> browser \<Rightarrow> (error + jsval) \<times> browser" where
  "callGateway cfg env mth params w =
     (let token = getAccessToken w in
      if \<not> string_truthy token then (Inl AuthenticationRequiredError, login cfg env w)
      else
        let req = gateway_request (null_text token) (payload mth params (env_now env));
            w1 = w\<lparr>requests := requests w @ [req]\<rparr>
        in case env_fetch env req of
             Rejected m \<Rightarrow> (Inl (FetchRejected m), w1)
           | Responded response \<Rightarrow>
               if resp_status response = 401
               then (Inl SessionExpiredError, login cfg env (logout w1))
               else if \<not> response_ok response
               then (Inl (GatewayHttpError (resp_status response) (resp_text response)), w1)
               else (case resp_json response of
                       None \<Rightarrow> (Inl (BodySyntaxError (resp_text response)), w1)
                     | Some data \<Rightarrow>
                         (case get_prop data ''error'' of
                            Inl e \<Rightarrow> (Inl e, w1)
                          | Inr err \<Rightarrow>
                              if truthy err then (Inl (GatewayRpcError err), w1)
                              else (Inr data, w1))))"

definition listTools :: "config \<Rightarrow> jsval env \<Rightarrow> browser \<Rightarrow> (error + jsval) \<times> browser" where
  "listTools cfg env w =
     (case callGateway cfg env ''tools/list'' (JObject []) w of
        (Inl e, w') \<Rightarrow> (Inl e, w')
      | (Inr response, w') \<Rightarrow> (get_prop response ''result'', w'))"

definition callTool :: "config \<Rightarrow> jsval env \<Rightarrow> string \<Rightarrow> jsval \<Rightarrow> browser \<Rightarrow> (error + jsval) \<times> browser" where
  "callTool cfg env toolName toolArgs w =
     (case callGateway cfg env ''tools/call'' (JObject [(''name'', JString toolName), (''arguments'', toolArgs)]) w of
        (Inl e, w') \<Rightarrow> (Inl e, w')
      | (Inr response, w') \<Rightarrow> (get_prop response ''result'', w'))"

text \<open>
  The part of \<^verbatim>\<open>runCouncil\<close> and \<^verbatim>\<open>runDxO\<close> after \<^verbatim>\<open>callTool\<close> returns, the same in
  both: the test \<^verbatim>\<open>result.content && result.content[0]?.text\<close>, the inner \<^verbatim>\<open>try\<close> around
  \<^verbatim>\<open>JSON.parse\<close> and the read of \<^verbatim>\<open>output\<close>, whose \<^verbatim>\<open>catch\<close> throws
  \<^verbatim>\<open>Invalid response format from agent\<close> for whatever was thrown, and the fallback.
\<close>

definition parse_lambda_response :: "engine \<Rightarrow> jsval \<Rightarrow> error + jsval" where
  "parse_lambda_response E result =
     (case get_prop result ''content'' of
        Inl e \<Rightarrow> Inl e
      | Inr content \<Rightarrow>
          if \<not> truthy content then Inr result
          else (case get_index content 0 of
                  Inl e \<Rightarrow> Inl e
                | Inr first \<Rightarrow>
                    (case get_prop_optional first ''text'' of
                       Inl e \<Rightarrow> Inl e
                     | Inr txt \<Rightarrow>
                         if \<not> truthy txt then Inr result
                         else (case JSON_parse E txt of
                                 None \<Rightarrow> Inl MalformedToolResponseError
                               | Some lambdaResponse \<Rightarrow>
                                   (case get_prop lambdaResponse ''output'' of
                                      Inl e \<Rightarrow> Inl MalformedToolResponseError
                                    | Inr out \<Rightarrow>
                                        if truthy out then Inr out else Inr lambdaResponse)))))"

definition runCouncil :: "engine \<Rightarrow> config \<Rightarrow> jsval env \<Rightarrow> jsval \<Rightarrow> browser \<Rightarrow> (error + jsval) \<times> browser" where
  "runCouncil E cfg env question w =
     (case callTool cfg env ''deep-research-lambda___invokeCouncil'' (JObject [(''question'', question)]) w of
        (Inl e, w') \<Rightarrow> (Inl e, w')
      | (Inr result, w') \<Rightarrow> (parse_lambda_response E result, w'))"

definition runDxO :: "engine \<Rightarrow> config \<Rightarrow> jsval env \<Rightarrow> jsval \<Rightarrow> browser \<Rightarrow> (error + jsval) \<times> browser" where
  "runDxO E cfg env question w =
     (case callTool cfg env ''deep-research-lambda___invokeDxO'' (JObject [(''question'', question)]) w of
        (Inl e, w') \<Rightarrow> (Inl e, w')
      | (Inr result, w') \<Rightarrow> (parse_lambda_response E result, w'))"

text \<open>
  \<^verbatim>\<open>healthCheck()\<close>: the \<^verbatim>\<open>try\<close> covers the call of \<^verbatim>\<open>listTools\<close> and the expression
  \<^verbatim>\<open>tools.tools?.length || 0\<close>; the \<^verbatim>\<open>catch\<close> returns an object with the message.
\<close>

definition health_error :: "engine \<Rightarrow> error \<Rightarrow> jsval" where
  "health_error E e = JObject [(''status'', JString ''error''), (''error'', JString (message E e))]"

definition health_ok :: "jsval \<Rightarrow> jsval" where
  "health_ok n = JObject [(''status'', JString ''healthy''), (''gateway'', JString ''connected''), (''tools'', n)]"

definition healthCheck :: "engine \<Rightarrow> config \<Rightarrow> jsval env \<Rightarrow> browser \<Rightarrow> (error + jsval) \<times> browser" where
  "healthCheck E cfg env w =
     (case listTools cfg env w of
        (Inl e, w') \<Rightarrow> (Inr (health_error E e), w')
      | (Inr tools, w') \<Rightarrow>
          (case get_prop tools ''tools'' of
             Inl e \<Rightarrow> (Inr (health_error E e), w')
           | Inr tt \<Rightarrow>
               (case get_prop_optional tt ''length'' of
                  Inl e \<Rightarrow> (Inr (health_error E e), w')
                | Inr n \<Rightarrow> (Inr (health_ok (if truthy n then n else JNumber 0)), w'))))"

section \<open>The authentication service of the gateway guide\<close>

text \<open>
  The gateway setup guide of the repository carries a second \<^verbatim>\<open>CyberArkAuth\<close> class
  (\<^verbatim>\<open>src/services/cyberark-auth.js\<close> in the guide), the only one with
  \<^verbatim>\<open>refreshAccessToken\<close>. Its \<^verbatim>\<open>storeTokens\<close> also stores the refresh token.
\<close>

definition guide_storeTokens :: "nat \<Rightarrow> string option \<Rightarrow> string option \<Rightarrow> js_number \<Rightarrow> browser \<Rightarrow> browser" where
  "guide_storeTokens now accessToken refreshToken expiresIn w =
     (let expiryTime = js_plus (Some (int now)) (js_times expiresIn (Some 1000));
          ls1 = setItem (localStorage w) ''cyberark_access_token'' (undefined_text accessToken);
          ls2 = setItem ls1 ''cyberark_refresh_token'' (undefined_text refreshToken);
          ls3 = setItem ls2 ''cyberark_token_expiry'' (number_toString expiryTime)
      in w\<lparr>localStorage := ls3\<rparr>)"

definition refresh_request :: "config \<Rightarrow> string option \<Rightarrow> http_request" where
  "refresh_request cfg refreshToken =
     \<lparr>req_url = tokenEndpoint cfg,
      req_verb = ''POST'',
      req_headers = [(''Content-Type'', ''application/x-www-form-urlencoded'')],
      req_body = FormBody [(''grant_type'', ''refresh_token''),
                           (''refresh_token'', null_text refreshToken),
                           (''client_id'', clientId cfg)]\<rparr>"

definition refreshAccessToken :: "config \<Rightarrow> token_data env \<Rightarrow> browser \<Rightarrow> (error + string option) \<times> browser" where
  "refreshAccessToken cfg env w =
     (let refreshToken = getItem (localStorage w) ''cyberark_refresh_token'';
          req = refresh_request cfg refreshToken;
          w1 = w\<lparr>requests := requests w @ [req]\<rparr>
      in case env_fetch env req of
           Rejected m \<Rightarrow> (Inl (FetchRejected m), w1)
         | Responded response \<Rightarrow>
             (case resp_json response of
                None \<Rightarrow> (Inl (BodySyntaxError (resp_text response)), w1)
              | Some data \<Rightarrow>
                  (Inr (access_token data),
                   guide_storeTokens (env_now env) (access_token data) (refresh_token data) (expires_in data) w1)))"

section \<open>The statements of the specification\<close>

text \<open>
  The expiry the session holds: what \<^verbatim>\<open>parseInt\<close> reads in the stored text, absent
  when there is no text or no number in it.
\<close>

definition stored_expiry :: "browser \<Rightarrow> int option" where
  "stored_expiry w =
     (case getItem (localStorage w) ''cyberark_token_expiry'' of None \<Rightarrow> None | Some s \<Rightarrow> parseInt s)"

text \<open>
  The envelope-unwrap algorithm in the specification's words: a field is present when
  reading it gives a value other than \<open>undefined\<close>.
\<close>

definition present :: "error + jsval \<Rightarrow> jsval option" where
  "present r = (case r of Inl e \<Rightarrow> None | Inr v \<Rightarrow> if v = JUndefined then None else Some v)"

definition invokeTool_unwrap :: "engine \<Rightarrow> jsval \<Rightarrow> error + jsval" where
  "invokeTool_unwrap E result =
     (case present (get_prop result ''content'') of
        None \<Rightarrow> Inr result
      | Some content \<Rightarrow>
          (case present (get_index content 0) of
             None \<Rightarrow> Inr result
           | Some first \<Rightarrow>
               (case present (get_prop first ''text'') of
                  None \<Rightarrow> Inr result
                | Some txt \<Rightarrow>
                    (case JSON_parse E txt of
                       None \<Rightarrow> Inl MalformedToolResponseError
                     | Some parsed \<Rightarrow>
                         (case present (get_prop parsed ''output'') of
                            Some out \<Rightarrow> Inr out
                          | None \<Rightarrow> Inr parsed)))))"

text \<open>
  The same algorithm with the tests the source makes: a field counts when its value is
  truthy, a result that is \<open>null\<close> or \<open>undefined\<close> has no \<^verbatim>\<open>content\<close> to read, and a
  parsed \<open>null\<close> has no \<^verbatim>\<open>output\<close> to read.
\<close>

definition truthy_field :: "error + jsval \<Rightarrow> jsval option" where
  "truthy_field r = (case r of Inl e \<Rightarrow> None | Inr v \<Rightarrow> if truthy v then Some v else None)"

definition nullish :: "jsval \<Rightarrow> bool" where
  "nullish v = (v = JNull \<or> v = JUndefined)"

definition invokeTool_unwrap_truthy :: "engine \<Rightarrow> jsval \<Rightarrow> error + jsval" where
  "invokeTool_unwrap_truthy E result =
     (if nullish result then Inl (NullishTypeError result ''content'')
      else (case truthy_field (get_prop result ''content'') of
              None \<Rightarrow> Inr result
            | Some content \<Rightarrow>
                (case truthy_field (get_index content 0) of
                   None \<Rightarrow> Inr result
                 | Some first \<Rightarrow>
                     (case truthy_field (get_prop first ''text'') of
                        None \<Rightarrow> Inr result
                      | Some txt \<Rightarrow>
                          (case JSON_parse E txt of
                             None \<Rightarrow> Inl MalformedToolResponseError
                           | Some parsed \<Rightarrow>
                               if nullish parsed then Inl MalformedToolResponseError
                               else (case truthy_field (get_prop parsed ''output'') of
                                       Some out \<Rightarrow> Inr out
                                     | None \<Rightarrow> Inr parsed))))))"

text \<open>The tool count of a tool list: \<^verbatim>\<open>tools.tools?.length || 0\<close>.\<close>

definition tool_count :: "jsval \<Rightarrow> jsval" where
  "tool_count tools =
     (case present (get_prop tools ''tools'') of
        None \<Rightarrow> JNumber 0
      | Some tt \<Rightarrow>
          (case truthy_field (get_prop tt ''length'') of None \<Rightarrow> JNumber 0 | Some n \<Rightarrow> n))"

section \<open>Concrete inputs\<close>

definition example_config :: config where
  "example_config =
     \<lparr>clientId = ''client-1'',
      authEndpoint = ''https://idp.example/authorize'',
      tokenEndpoint = ''https://idp.example/token'',
      origin = ''http://localhost:5173'',
      apiBaseUrl = ''http://localhost:8001''\<rparr>"

definition empty_browser :: browser where
  "empty_browser =
     \<lparr>localStorage = Map.empty, sessionStorage = Map.empty, location_search = [],
      location_href = None, requests = []\<rparr>"

text \<open>An environment whose clock reads \<open>now\<close>, whose random draws are \<open>0, 1, 2, \<dots>\<close> and
  whose server gives one answer to every request.\<close>

definition constant_env :: "nat \<Rightarrow> 'a fetch_result \<Rightarrow> 'a env" where
  "constant_env now answer = \<lparr>env_now = now, env_random = (\<lambda>i. i), env_fetch = (\<lambda>req. answer)\<rparr>"

definition answer :: "nat \<Rightarrow> string \<Rightarrow> 'a option \<Rightarrow> 'a fetch_result" where
  "answer st txt js = Responded \<lparr>resp_status = st, resp_text = txt, resp_json = js\<rparr>"

text \<open>A browser holding a token that expires at 2000, and one returning from the provider.\<close>

definition signed_in_browser :: "string \<Rightarrow> browser" where
  "signed_in_browser token =
     empty_browser\<lparr>localStorage := [''cyberark_access_token'' \<mapsto> token, ''cyberark_token_expiry'' \<mapsto> ''2000'']\<rparr>"

definition callback_browser :: "(string \<times> string) list \<Rightarrow> string option \<Rightarrow> browser" where
  "callback_browser query pending =
     empty_browser\<lparr>sessionStorage := (\<lambda>k. if k = ''oauth_state'' then pending else None),
                   location_search := query\<rparr>"

definition example_tokens :: token_data where
  "example_tokens = \<lparr>access_token = Some ''T1'', refresh_token = Some ''R1'', expires_in = Some 3600\<rparr>"

text \<open>
  An engine for the examples: its \<^verbatim>\<open>JSON.parse\<close> knows the texts the examples use and
  rejects every other value, as \<^verbatim>\<open>JSON.parse\<close> rejects the empty text; the examples
  read none of its other functions but through \<open>message\<close>.
\<close>

definition example_engine :: engine where
  "example_engine =
     \<lparr>JSON_parse = map_of
        [(JString ''{\"output\":{\"question\":\"Q\"}}'', JObject [(''output'', JObject [(''question'', JString ''Q'')])]),
         (JString ''{\"question\":\"Q\"}'', JObject [(''question'', JString ''Q'')]),
         (JString ''{\"output\":0}'', JObject [(''output'', JNumber 0)]),
         (JString ''null'', JNull)],
      JSON_stringify = (\<lambda>v. ''[json]''),
      ToString = (\<lambda>v. ''[text]''),
      nullish_message = (\<lambda>v k. ''Cannot read properties of null or undefined: '' @ k),
      syntax_message = (\<lambda>t. ''Unexpected token'')\<rparr>"

text \<open>A tool result that carries one text, and the gateway's answer with a result.\<close>

definition envelope :: "string \<Rightarrow> jsval" where
  "envelope txt = JObject [(''content'', JArray [JObject [(''text'', JString txt)]])]"

definition rpc_answer :: "jsval \<Rightarrow> jsval fetch_result" where
  "rpc_answer result =
     answer 200 [] (Some (JObject [(''jsonrpc'', JString ''2.0''), (''id'', JString ''1''), (''result'', result)]))"

section \<open>Properties of the authentication service\<close>

subsection \<open>Authentication status\<close>

text \<open>
  C6, as stated: \<^verbatim>\<open>isAuthenticated()\<close> is true iff an access token is present and the
  current time is strictly before the stored expiry. It fails for a stored token that is
  the empty string: the token is present, the expiry 2000 lies after the time 1000, and
  the test \<^verbatim>\<open>!token\<close> answers false.
\<close>

theorem isAuthenticated_empty_token_counterexample:
  "getAccessToken (signed_in_browser '''') = Some '''' \<and>
   stored_expiry (signed_in_browser '''') = Some 2000 \<and>
   isAuthenticated 1000 (signed_in_browser '''') = False"
  by (simp add: getAccessToken_def stored_expiry_def isAuthenticated_def signed_in_browser_def
      empty_browser_def getItem_def parseInt_def is_white_def radix_digit_def digit_value_def)

text \<open>
  C6, amended: \<^verbatim>\<open>isAuthenticated()\<close> is true iff a non-empty access token is stored and
  the current time is strictly before the stored expiry; so it is false whenever the
  stored expiry is absent or not after the current time, whatever the access token is.
  It returns a boolean only: it changes no state and issues no request.
\<close>

theorem isAuthenticated_iff:
  "(isAuthenticated now w \<longleftrightarrow>
      (\<exists>t. getAccessToken w = Some t \<and> t \<noteq> []) \<and> (\<exists>e. stored_expiry w = Some e \<and> int now < e)) \<and>
   (stored_expiry w = None \<or> (\<exists>e. stored_expiry w = Some e \<and> e \<le> int now) \<longrightarrow> \<not> isAuthenticated now w)"
proof -
  have empty: "parseInt [] = None"
    by (simp add: parseInt_def)
  have main: "isAuthenticated now w \<longleftrightarrow>
      (\<exists>t. getAccessToken w = Some t \<and> t \<noteq> []) \<and> (\<exists>e. stored_expiry w = Some e \<and> int now < e)"
    using empty by (auto simp: isAuthenticated_def stored_expiry_def split: option.splits)
  then show ?thesis by auto
qed

theorem isAuthenticated_iff_witness:
  "isAuthenticated 1000 (signed_in_browser ''T1'') \<and> \<not> isAuthenticated 2000 (signed_in_browser ''T1'')"
proof -
  have t: "getAccessToken (signed_in_browser ''T1'') = Some ''T1''"
    by (simp add: getAccessToken_def signed_in_browser_def empty_browser_def getItem_def)
  have e: "stored_expiry (signed_in_browser ''T1'') = Some 2000"
    by (simp add: stored_expiry_def signed_in_browser_def empty_browser_def getItem_def
        parseInt_def is_white_def radix_digit_def digit_value_def)
  show ?thesis
    using isAuthenticated_iff [of 1000 "signed_in_browser ''T1''"]
      isAuthenticated_iff [of 2000 "signed_in_browser ''T1''"] t e
    by simp
qed

subsection \<open>The callback\<close>

lemmas callback_defs = handleCallback_def callback_browser_def empty_browser_def params_get_def
  string_truthy_def null_text_def getItem_def constant_env_def answer_def

lemmas text_defs = number_toString_def show_int_def show_nat.simps digit_char_def
  undefined_text_def js_plus_def js_times_def

text \<open>
  C1, as stated: every callback whose query has a code and a state that differs from the
  stored one fails with \<open>CsrfError\<close>. The source tests the \<^verbatim>\<open>error\<close> parameter and the
  truthiness of the code before it compares the states: with an \<^verbatim>\<open>error\<close> parameter
  the call fails with \<open>ProviderError\<close>, and with an empty code with \<open>MissingCodeError\<close>.
\<close>

theorem handleCallback_csrf_counterexample:
  "params_get [(''error'', ''access_denied''), (''code'', ''ABC''), (''state'', ''xyz999'')] ''code'' = Some ''ABC'' \<and>
   params_get [(''error'', ''access_denied''), (''code'', ''ABC''), (''state'', ''xyz999'')] ''state'' = Some ''xyz999'' \<and>
   fst (handleCallback example_config (constant_env 1000 (answer 200 [] (Some example_tokens)))
         (callback_browser [(''error'', ''access_denied''), (''code'', ''ABC''), (''state'', ''xyz999'')] (Some ''abc123'')))
     = Inl (ProviderError ''access_denied'') \<and>
   params_get [(''code'', ''''), (''state'', ''xyz999'')] ''code'' = Some '''' \<and>
   fst (handleCallback example_config (constant_env 1000 (answer 200 [] (Some example_tokens)))
         (callback_browser [(''code'', ''''), (''state'', ''xyz999'')] (Some ''abc123'')))
     = Inl MissingCodeError"
  by (simp add: callback_defs)

text \<open>
  C1, amended: a callback whose query has no \<^verbatim>\<open>error\<close> parameter (or an empty one), a
  non-empty code and a state that is not the stored pending state, also when no pending
  state is stored, fails with \<open>CsrfError\<close> and leaves the browser as it was: no token
  or expiry is stored and no request is sent.
\<close>

theorem handleCallback_csrf:
  assumes "\<not> string_truthy (params_get (location_search w) ''error'')"
    and "string_truthy (params_get (location_search w) ''code'')"
    and "params_get (location_search w) ''state'' = Some s"
    and "getItem (sessionStorage w) ''oauth_state'' \<noteq> Some s"
  shows "handleCallback cfg env w = (Inl CsrfError, w)"
  using assms by (simp add: handleCallback_def Let_def)

theorem handleCallback_csrf_witness:
  "handleCallback example_config (constant_env 1000 (answer 200 [] (Some example_tokens)))
     (callback_browser [(''code'', ''ABC''), (''state'', ''xyz999'')] (Some ''abc123''))
   = (Inl CsrfError, callback_browser [(''code'', ''ABC''), (''state'', ''xyz999'')] (Some ''abc123'')) \<and>
   handleCallback example_config (constant_env 1000 (answer 200 [] (Some example_tokens)))
     (callback_browser [(''code'', ''ABC''), (''state'', ''xyz999'')] None)
   = (Inl CsrfError, callback_browser [(''code'', ''ABC''), (''state'', ''xyz999'')] None)"
proof -
  let ?q = "[(''code'', ''ABC''), (''state'', ''xyz999'')]"
  have h: "\<not> string_truthy (params_get (location_search (callback_browser ?q p)) ''error'')"
    "string_truthy (params_get (location_search (callback_browser ?q p)) ''code'')"
    "params_get (location_search (callback_browser ?q p)) ''state'' = Some ''xyz999''" for p
    by (simp_all add: callback_browser_def empty_browser_def params_get_def string_truthy_def)
  have a: "getItem (sessionStorage (callback_browser ?q (Some ''abc123''))) ''oauth_state'' \<noteq> Some ''xyz999''"
    by (simp add: callback_browser_def empty_browser_def getItem_def)
  have b: "getItem (sessionStorage (callback_browser ?q None)) ''oauth_state'' \<noteq> Some ''xyz999''"
    by (simp add: callback_browser_def empty_browser_def getItem_def)
  show ?thesis
    using handleCallback_csrf [OF h a] handleCallback_csrf [OF h b] by simp
qed

text \<open>
  C10, as stated: with a code in the query, no state parameter and no pending state, the
  call proceeds to the token exchange. With an \<^verbatim>\<open>error\<close> parameter beside the code it
  fails with \<open>ProviderError\<close> before the comparison, and no request is sent; with a
  code that is the empty string it fails with \<open>MissingCodeError\<close>.
\<close>

theorem handleCallback_absent_state_counterexample:
  "params_get [(''code'', ''ABC''), (''error'', ''access_denied'')] ''code'' = Some ''ABC'' \<and>
   params_get [(''code'', ''ABC''), (''error'', ''access_denied'')] ''state'' = None \<and>
   getItem (sessionStorage (callback_browser [(''code'', ''ABC''), (''error'', ''access_denied'')] None)) ''oauth_state'' = None \<and>
   handleCallback example_config (constant_env 1000 (answer 200 [] (Some example_tokens)))
         (callback_browser [(''code'', ''ABC''), (''error'', ''access_denied'')] None)
     = (Inl (ProviderError ''access_denied''), callback_browser [(''code'', ''ABC''), (''error'', ''access_denied'')] None) \<and>
   requests (callback_browser [(''code'', ''ABC''), (''error'', ''access_denied'')] None) = [] \<and>
   params_get [(''code'', '''')] ''code'' = Some '''' \<and>
   handleCallback example_config (constant_env 1000 (answer 200 [] (Some example_tokens)))
         (callback_browser [(''code'', '''')] None)
     = (Inl MissingCodeError, callback_browser [(''code'', '''')] None)"
  by (simp add: callback_defs)

text \<open>
  C10, amended: when the query has no \<^verbatim>\<open>error\<close> parameter (or an empty one), a
  non-empty code and no state parameter, and no pending state is stored, the comparison
  passes: the token exchange request is sent, and the call does not fail with
  \<open>CsrfError\<close>.
\<close>

theorem handleCallback_absent_state:
  assumes "\<not> string_truthy (params_get (location_search w) ''error'')"
    and "string_truthy (params_get (location_search w) ''code'')"
    and "params_get (location_search w) ''state'' = None"
    and "getItem (sessionStorage w) ''oauth_state'' = None"
  shows "requests (snd (handleCallback cfg env w))
           = requests w @ [token_exchange_request cfg (params_get (location_search w) ''code'')] \<and>
         fst (handleCallback cfg env w) \<noteq> Inl CsrfError"
  using assms
  by (simp add: handleCallback_def Let_def storeTokens_def split: fetch_result.split option.split)

theorem handleCallback_absent_state_witness:
  "requests (snd (handleCallback example_config (constant_env 1000 (answer 200 [] (Some example_tokens)))
       (callback_browser [(''code'', ''ABC'')] None)))
     = [token_exchange_request example_config (Some ''ABC'')] \<and>
   fst (handleCallback example_config (constant_env 1000 (answer 200 [] (Some example_tokens)))
       (callback_browser [(''code'', ''ABC'')] None)) \<noteq> Inl CsrfError"
proof -
  let ?w = "callback_browser [(''code'', ''ABC'')] None"
  have h: "\<not> string_truthy (params_get (location_search ?w) ''error'')"
    "string_truthy (params_get (location_search ?w) ''code'')"
    "params_get (location_search ?w) ''state'' = None"
    "getItem (sessionStorage ?w) ''oauth_state'' = None"
    by (simp_all add: callback_browser_def empty_browser_def params_get_def string_truthy_def getItem_def)
  have c: "params_get (location_search ?w) ''code'' = Some ''ABC''" "requests ?w = []"
    by (simp_all add: callback_browser_def empty_browser_def params_get_def)
  show ?thesis
    using handleCallback_absent_state [OF h, of example_config "constant_env 1000 (answer 200 [] (Some example_tokens))"] c
    by simp
qed

text \<open>
  C5, as stated: after every callback, failed or not, the pending state is cleared and a
  second callback with the same query fails with \<open>CsrfError\<close>. The source removes the
  pending state only after it has stored the tokens: after a token exchange that the
  server refuses, the pending state is still stored, and a second callback with the same
  query passes the comparison and, the server now answering, succeeds. After a callback
  that succeeds with no state parameter and no pending state, a second callback with the
  same query succeeds again.
\<close>

theorem handleCallback_failure_keeps_state_counterexample:
  "fst (handleCallback example_config (constant_env 1000 (answer 400 ''invalid_grant'' None))
         (callback_browser [(''code'', ''ABC''), (''state'', ''S1'')] (Some ''S1'')))
     = Inl (TokenExchangeError ''invalid_grant'') \<and>
   getItem (sessionStorage (snd (handleCallback example_config (constant_env 1000 (answer 400 ''invalid_grant'' None))
         (callback_browser [(''code'', ''ABC''), (''state'', ''S1'')] (Some ''S1''))))) ''oauth_state''
     = Some ''S1'' \<and>
   fst (handleCallback example_config (constant_env 1000 (answer 200 [] (Some example_tokens)))
         (snd (handleCallback example_config (constant_env 1000 (answer 400 ''invalid_grant'' None))
           (callback_browser [(''code'', ''ABC''), (''state'', ''S1'')] (Some ''S1'')))))
     = Inr (Some ''T1'') \<and>
   fst (handleCallback example_config (constant_env 1000 (answer 200 [] (Some example_tokens)))
         (callback_browser [(''code'', ''ABC'')] None))
     = Inr (Some ''T1'') \<and>
   fst (handleCallback example_config (constant_env 1000 (answer 200 [] (Some example_tokens)))
         (snd (handleCallback example_config (constant_env 1000 (answer 200 [] (Some example_tokens)))
           (callback_browser [(''code'', ''ABC'')] None))))
     = Inr (Some ''T1'')"
  by (simp add: callback_defs Let_def response_ok_def example_tokens_def storeTokens_def removeItem_def)

lemma handleCallback_cases:
  assumes "handleCallback cfg env w = (r, w')"
  shows "(\<exists>e. r = Inl e \<and> sessionStorage w' = sessionStorage w \<and> localStorage w' = localStorage w
            \<and> location_search w' = location_search w) \<or>
         (\<exists>tok. r = Inr tok \<and> sessionStorage w' = removeItem (sessionStorage w) ''oauth_state''
            \<and> location_search w' = location_search w
            \<and> params_get (location_search w) ''state'' = getItem (sessionStorage w) ''oauth_state'')"
  using assms
  by (auto simp: handleCallback_def Let_def storeTokens_def split: if_splits fetch_result.splits option.splits)

text \<open>
  C5, amended: after a callback that succeeds the pending state is cleared, and a second
  callback with the same query, when that query has a state parameter, fails with
  \<open>CsrfError\<close> and changes nothing; after a callback that fails the session store,
  and the pending state in it, is as it was before. The query is the same after the call.
\<close>

theorem handleCallback_state_consumption:
  assumes "handleCallback cfg env w = (r, w')"
  shows "location_search w' = location_search w \<and>
         (case r of
            Inl e \<Rightarrow> sessionStorage w' = sessionStorage w
          | Inr tok \<Rightarrow>
              getItem (sessionStorage w') ''oauth_state'' = None \<and>
              (params_get (location_search w) ''state'' \<noteq> None \<longrightarrow>
                 handleCallback cfg env2 w' = (Inl CsrfError, w')))"
proof (cases r)
  case (Inl e)
  then show ?thesis using handleCallback_cases [OF assms] by auto
next
  case (Inr tok)
  with handleCallback_cases [OF assms]
  have ss: "sessionStorage w' = removeItem (sessionStorage w) ''oauth_state''"
    and ls: "location_search w' = location_search w"
    and st: "params_get (location_search w) ''state'' = getItem (sessionStorage w) ''oauth_state''"
    by auto
  have cleared: "getItem (sessionStorage w') ''oauth_state'' = None"
    using ss by (simp add: getItem_def removeItem_def)
  have ok: "\<not> string_truthy (params_get (location_search w) ''error'')"
    "string_truthy (params_get (location_search w) ''code'')"
    using assms Inr by (auto simp: handleCallback_def Let_def split: if_splits)
  have "handleCallback cfg env2 w' = (Inl CsrfError, w')"
    if "params_get (location_search w) ''state'' \<noteq> None"
    using that ok cleared ls by (auto simp: handleCallback_def Let_def)
  then show ?thesis using Inr cleared ls by simp
qed

theorem handleCallback_state_consumption_witness:
  "getItem (sessionStorage (snd (handleCallback example_config (constant_env 1000 (answer 200 [] (Some example_tokens)))
      (callback_browser [(''code'', ''ABC''), (''state'', ''S1'')] (Some ''S1''))))) ''oauth_state'' = None \<and>
   fst (handleCallback example_config (constant_env 1000 (answer 200 [] (Some example_tokens)))
     (snd (handleCallback example_config (constant_env 1000 (answer 200 [] (Some example_tokens)))
        (callback_browser [(''code'', ''ABC''), (''state'', ''S1'')] (Some ''S1''))))) = Inl CsrfError"
proof -
  let ?env = "constant_env 1000 (answer 200 [] (Some example_tokens))"
  let ?w = "callback_browser [(''code'', ''ABC''), (''state'', ''S1'')] (Some ''S1'')"
  obtain w' where run: "handleCallback example_config ?env ?w = (Inr (Some ''T1''), w')"
    by (simp add: callback_defs Let_def response_ok_def example_tokens_def storeTokens_def)
  have q: "params_get (location_search ?w) ''state'' \<noteq> None"
    by (simp add: callback_browser_def empty_browser_def params_get_def)
  show ?thesis
    using handleCallback_state_consumption [OF run, of ?env] q run by simp
qed

subsection \<open>Stored tokens\<close>

text \<open>
  C4: every successful callback stores the access token and the refresh token, stores the
  expiry \<open>now + expires_in * 1000\<close>, clears the pending state and returns the access
  token. The source's \<^verbatim>\<open>storeTokens\<close> takes the refresh token and does not store it: its
  result is the same for every refresh token. For a server answering
  \<^verbatim>\<open>{access_token: "T1", refresh_token: "R1", expires_in: 3600}\<close> at time 1000, the call
  returns \<open>T1\<close>, and the store holds the access token and the expiry 3601000 and
  nothing else: no key holds \<open>R1\<close>.
\<close>

theorem handleCallback_drops_refresh_token:
  "storeTokens now accessToken refreshToken expiresIn w = storeTokens now accessToken None expiresIn w \<and>
   fst (handleCallback example_config (constant_env 1000 (answer 200 [] (Some example_tokens)))
         (callback_browser [(''code'', ''ABC''), (''state'', ''S1'')] (Some ''S1'')))
     = Inr (Some ''T1'') \<and>
   localStorage (snd (handleCallback example_config (constant_env 1000 (answer 200 [] (Some example_tokens)))
         (callback_browser [(''code'', ''ABC''), (''state'', ''S1'')] (Some ''S1''))))
     = [''cyberark_access_token'' \<mapsto> ''T1'', ''cyberark_token_expiry'' \<mapsto> ''3601000''] \<and>
   getItem (localStorage (snd (handleCallback example_config (constant_env 1000 (answer 200 [] (Some example_tokens)))
         (callback_browser [(''code'', ''ABC''), (''state'', ''S1'')] (Some ''S1''))))) ''cyberark_refresh_token''
     = None"
  by (simp add: callback_defs Let_def response_ok_def example_tokens_def storeTokens_def setItem_def text_defs)

text \<open>
  C8: \<^verbatim>\<open>refreshAccessToken()\<close> fails with \<open>RefreshError\<close> whenever no refresh token is
  stored or the exchange does not succeed. The guide's function tests neither the stored
  refresh token nor \<^verbatim>\<open>response.ok\<close>, which \<^verbatim>\<open>handleCallback\<close> of the same class tests.
  With no refresh token stored it sends \<open>refresh_token=null\<close>; when the server answers
  400 with a JSON body that has no tokens, it returns \<open>undefined\<close> without an error and
  stores the texts \<open>undefined\<close> and \<open>NaN\<close> as the tokens and the expiry.
\<close>

theorem refreshAccessToken_unchecked:
  "getItem (localStorage empty_browser) ''cyberark_refresh_token'' = None \<and>
   fst (refreshAccessToken example_config
         (constant_env 1000 (answer 400 ''invalid_grant''
            (Some \<lparr>access_token = None, refresh_token = None, expires_in = None\<rparr>)))
         empty_browser) = Inr None \<and>
   localStorage (snd (refreshAccessToken example_config
         (constant_env 1000 (answer 400 ''invalid_grant''
            (Some \<lparr>access_token = None, refresh_token = None, expires_in = None\<rparr>)))
         empty_browser))
     = [''cyberark_access_token'' \<mapsto> ''undefined'', ''cyberark_refresh_token'' \<mapsto> ''undefined'',
        ''cyberark_token_expiry'' \<mapsto> ''NaN''] \<and>
   map req_body (requests (snd (refreshAccessToken example_config
         (constant_env 1000 (answer 400 ''invalid_grant''
            (Some \<lparr>access_token = None, refresh_token = None, expires_in = None\<rparr>)))
         empty_browser)))
     = [FormBody [(''grant_type'', ''refresh_token''), (''refresh_token'', ''null''), (''client_id'', ''client-1'')]]"
  by (simp add: refreshAccessToken_def refresh_request_def guide_storeTokens_def Let_def empty_browser_def
      getItem_def setItem_def constant_env_def answer_def example_config_def text_defs null_text_def)

section \<open>Properties of the gateway client\<close>

subsection \<open>Unauthorized calls\<close>

lemma login_fields:
  "localStorage (login cfg env w) = localStorage w"
  "getItem (sessionStorage (login cfg env w)) ''oauth_state'' = Some (generateRandomString (env_random env) 32)"
  "location_href (login cfg env w) \<noteq> None"
  "requests (login cfg env w) = requests w"
  by (simp_all add: login_def Let_def getItem_def setItem_def)

lemma logout_fields:
  "getItem (localStorage (logout w)) ''cyberark_access_token'' = None"
  "getItem (localStorage (logout w)) ''cyberark_token_expiry'' = None"
  "getItem (sessionStorage (logout w)) ''oauth_state'' = None"
  "requests (logout w) = requests w"
  by (simp_all add: logout_def Let_def getItem_def removeItem_def)

lemma generateRandomString_example:
  "generateRandomString (\<lambda>i. i) 32 = ''ABCDEFGHIJKLMNOPQRSTUVWXYZabcdef''"
  by (simp add: generateRandomString_def generateRandomString_loop.simps charAt_def chars_def)

lemmas url_defs = URLSearchParams_toString_def form_encode_def form_encode_char_def form_unreserved_def
  utf8_bytes_def percent_byte_def hex_digit_def redirectUri_def

text \<open>
  C2, as stated: on a 401 the call clears the session as \<^verbatim>\<open>logout()\<close> does and fails with
  \<open>SessionExpiredError\<close>, and it never invokes \<^verbatim>\<open>login()\<close>, neither on a 401 nor when
  no access token is stored. The source calls \<^verbatim>\<open>cyberarkAuth.login()\<close> in both places:
  after a 401 the page is sent to the authorization endpoint and a new pending state is
  stored, which \<^verbatim>\<open>logout()\<close> alone would have removed; with no token stored the same
  happens and the call fails with \<^verbatim>\<open>Authentication required\<close>.
\<close>

theorem callGateway_login_counterexample:
  "location_href (signed_in_browser ''T1'') = None \<and>
   fst (callGateway example_config (constant_env 1000 (answer 401 ''Unauthorized'' None)) ''tools/list'' (JObject [])
         (signed_in_browser ''T1'')) = Inl SessionExpiredError \<and>
   location_href (snd (callGateway example_config (constant_env 1000 (answer 401 ''Unauthorized'' None)) ''tools/list'' (JObject [])
         (signed_in_browser ''T1'')))
     = Some ''https://idp.example/authorize?client_id=client-1&redirect_uri=http%3A%2F%2Flocalhost%3A5173%2Fcallback&response_type=code&scope=openid+profile+email&state=ABCDEFGHIJKLMNOPQRSTUVWXYZabcdef'' \<and>
   getItem (sessionStorage (snd (callGateway example_config (constant_env 1000 (answer 401 ''Unauthorized'' None)) ''tools/list'' (JObject [])
         (signed_in_browser ''T1'')))) ''oauth_state''
     = Some ''ABCDEFGHIJKLMNOPQRSTUVWXYZabcdef'' \<and>
   getItem (sessionStorage (logout (signed_in_browser ''T1''))) ''oauth_state'' = None \<and>
   callGateway example_config (constant_env 1000 (answer 200 [] None)) ''tools/list'' (JObject []) empty_browser
     = (Inl AuthenticationRequiredError,
        login example_config (constant_env 1000 (answer 200 [] (None :: jsval option))) empty_browser) \<and>
   location_href (login example_config (constant_env 1000 (answer 200 [] (None :: jsval option))) empty_browser)
     = Some ''https://idp.example/authorize?client_id=client-1&redirect_uri=http%3A%2F%2Flocalhost%3A5173%2Fcallback&response_type=code&scope=openid+profile+email&state=ABCDEFGHIJKLMNOPQRSTUVWXYZabcdef''"
  by (simp add: callGateway_def login_def logout_def signed_in_browser_def empty_browser_def constant_env_def
      answer_def getAccessToken_def getItem_def setItem_def removeItem_def string_truthy_def null_text_def Let_def
      generateRandomString_example example_config_def url_defs)

text \<open>
  C2, amended: when no non-empty access token is stored, the call sends no request, invokes
  \<^verbatim>\<open>login()\<close> and fails with \<^verbatim>\<open>Authentication required\<close>. When the gateway answers
  401, the call has sent that one request and sends no other; it removes the stored access
  token and expiry as \<^verbatim>\<open>logout()\<close> does, so that \<^verbatim>\<open>isAuthenticated()\<close> is false at every
  later time, then invokes \<^verbatim>\<open>login()\<close>, which stores a fresh pending state and sends the
  page to the authorization endpoint, and fails with \<open>SessionExpiredError\<close>.
\<close>

theorem callGateway_session_expired:
  "(\<not> string_truthy (getAccessToken w) \<longrightarrow>
      callGateway cfg env mth params w = (Inl AuthenticationRequiredError, login cfg env w) \<and>
      requests (login cfg env w) = requests w) \<and>
   (string_truthy (getAccessToken w) \<and>
    env_fetch env (gateway_request (null_text (getAccessToken w)) (payload mth params (env_now env)))
      = Responded response \<and>
    resp_status response = 401 \<longrightarrow>
      fst (callGateway cfg env mth params w) = Inl SessionExpiredError \<and>
      snd (callGateway cfg env mth params w)
        = login cfg env (logout (w\<lparr>requests := requests w @
            [gateway_request (null_text (getAccessToken w)) (payload mth params (env_now env))]\<rparr>)) \<and>
      getAccessToken (snd (callGateway cfg env mth params w)) = None \<and>
      \<not> isAuthenticated now' (snd (callGateway cfg env mth params w)) \<and>
      getItem (sessionStorage (snd (callGateway cfg env mth params w))) ''oauth_state''
        = Some (generateRandomString (env_random env) 32) \<and>
      location_href (snd (callGateway cfg env mth params w)) \<noteq> None \<and>
      requests (snd (callGateway cfg env mth params w))
        = requests w @ [gateway_request (null_text (getAccessToken w)) (payload mth params (env_now env))])"
proof (intro conjI impI)
  assume "\<not> string_truthy (getAccessToken w)"
  then show "callGateway cfg env mth params w = (Inl AuthenticationRequiredError, login cfg env w)"
    by (simp add: callGateway_def)
next
  show "requests (login cfg env w) = requests w" by (rule login_fields)
next
  let ?req = "gateway_request (null_text (getAccessToken w)) (payload mth params (env_now env))"
  let ?w1 = "w\<lparr>requests := requests w @ [?req]\<rparr>"
  assume h: "string_truthy (getAccessToken w) \<and> env_fetch env ?req = Responded response \<and> resp_status response = 401"
  then have run: "callGateway cfg env mth params w = (Inl SessionExpiredError, login cfg env (logout ?w1))"
    by (simp add: callGateway_def Let_def)
  show "fst (callGateway cfg env mth params w) = Inl SessionExpiredError"
    using run by simp
  show "snd (callGateway cfg env mth params w) = login cfg env (logout ?w1)"
    using run by simp
  show tok: "getAccessToken (snd (callGateway cfg env mth params w)) = None"
    using run by (simp add: getAccessToken_def login_fields logout_fields)
  show "\<not> isAuthenticated now' (snd (callGateway cfg env mth params w))"
    using tok by (simp add: isAuthenticated_def)
  show "getItem (sessionStorage (snd (callGateway cfg env mth params w))) ''oauth_state''
        = Some (generateRandomString (env_random env) 32)"
    using run by (simp add: login_fields)
  show "location_href (snd (callGateway cfg env mth params w)) \<noteq> None"
    using run by (simp add: login_fields)
  show "requests (snd (callGateway cfg env mth params w)) = requests w @ [?req]"
    using run by (simp add: login_fields logout_fields)
qed

theorem callGateway_session_expired_witness:
  "callGateway example_config (constant_env 1000 (answer 200 [] None)) ''tools/list'' (JObject []) empty_browser
     = (Inl AuthenticationRequiredError,
        login example_config (constant_env 1000 (answer 200 [] (None :: jsval option))) empty_browser) \<and>
   fst (callGateway example_config (constant_env 1000 (answer 401 ''Unauthorized'' None)) ''tools/list'' (JObject [])
         (signed_in_browser ''T1'')) = Inl SessionExpiredError \<and>
   \<not> isAuthenticated 1000 (snd (callGateway example_config (constant_env 1000 (answer 401 ''Unauthorized'' None))
         ''tools/list'' (JObject []) (signed_in_browser ''T1''))) \<and>
   getItem (sessionStorage (snd (callGateway example_config (constant_env 1000 (answer 401 ''Unauthorized'' None))
         ''tools/list'' (JObject []) (signed_in_browser ''T1'')))) ''oauth_state''
     = Some ''ABCDEFGHIJKLMNOPQRSTUVWXYZabcdef''"
proof -
  let ?env = "constant_env 1000 (answer 401 ''Unauthorized'' None) :: jsval env"
  have a: "\<not> string_truthy (getAccessToken empty_browser)"
    by (simp add: string_truthy_def getAccessToken_def getItem_def empty_browser_def)
  have b: "string_truthy (getAccessToken (signed_in_browser ''T1'')) \<and>
      env_fetch ?env (gateway_request (null_text (getAccessToken (signed_in_browser ''T1'')))
        (payload ''tools/list'' (JObject []) (env_now ?env)))
        = Responded \<lparr>resp_status = 401, resp_text = ''Unauthorized'', resp_json = None\<rparr> \<and>
      resp_status \<lparr>resp_status = 401, resp_text = ''Unauthorized'', resp_json = (None :: jsval option)\<rparr> = 401"
    by (simp add: string_truthy_def getAccessToken_def getItem_def signed_in_browser_def empty_browser_def
        constant_env_def answer_def)
  have r: "env_random ?env = (\<lambda>i. i)"
    by (simp add: constant_env_def)
  note A = callGateway_session_expired [where w = empty_browser and cfg = example_config
        and env = "constant_env 1000 (answer 200 [] None)" and mth = "''tools/list''" and params = "JObject []",
        THEN conjunct1, THEN mp, OF a]
  note B = callGateway_session_expired [where w = "signed_in_browser ''T1''" and cfg = example_config and env = ?env
        and mth = "''tools/list''" and params = "JObject []" and now' = 1000
        and response = "\<lparr>resp_status = 401, resp_text = ''Unauthorized'', resp_json = None\<rparr>",
        THEN conjunct2, THEN mp, OF b]
  have T1: "callGateway example_config (constant_env 1000 (answer 200 [] None)) ''tools/list'' (JObject []) empty_browser
     = (Inl AuthenticationRequiredError,
        login example_config (constant_env 1000 (answer 200 [] (None :: jsval option))) empty_browser)"
    using A by (elim conjE)
  have T2: "fst (callGateway example_config ?env ''tools/list'' (JObject []) (signed_in_browser ''T1''))
     = Inl SessionExpiredError"
    using B by (elim conjE)
  have T3: "\<not> isAuthenticated 1000 (snd (callGateway example_config ?env ''tools/list'' (JObject [])
     (signed_in_browser ''T1'')))"
    using B by (elim conjE)
  have T4: "getItem (sessionStorage (snd (callGateway example_config ?env ''tools/list'' (JObject [])
        (signed_in_browser ''T1'')))) ''oauth_state'' = Some ''ABCDEFGHIJKLMNOPQRSTUVWXYZabcdef''"
    using B unfolding r generateRandomString_example by (elim conjE)
  show ?thesis
    using T1 T2 T3 T4 by (intro conjI)
qed

subsection \<open>Request identifiers\<close>

lemma digit_cases:
  assumes "d < (10::nat)"
  obtains "d = 0" | "d = 1" | "d = 2" | "d = 3" | "d = 4" | "d = 5" | "d = 6" | "d = 7" | "d = 8" | "d = 9"
  using assms by atomize_elim presburger

lemma digit_char_value: "d < 10 \<Longrightarrow> radix_digit 10 (digit_char d) = Some d"
  by (erule digit_cases) (simp_all add: digit_char_def radix_digit_def digit_value_def)

lemma digit_char_in: "d < 10 \<Longrightarrow> digit_char d \<in> set ''0123456789''"
  by (erule digit_cases) (simp_all add: digit_char_def)

lemma show_nat_digits: "c \<in> set (show_nat n) \<Longrightarrow> c \<in> set ''0123456789''"
proof (induction n rule: show_nat.induct)
  case (1 n)
  show ?case
  proof (cases "n < 10")
    case True
    with "1.prems" have "c = digit_char n"
      by (subst (asm) show_nat.simps) simp
    with True show ?thesis using digit_char_in by blast
  next
    case False
    with "1.prems" have "c \<in> set (show_nat (n div 10)) \<or> c = digit_char (n mod 10)"
      by (subst (asm) show_nat.simps) auto
    then show ?thesis
      using "1.IH" [OF False] digit_char_in [of "n mod 10"] by auto
  qed
qed

text \<open>Reading the decimal text of a number gives the number back.\<close>

lemma parse_digits_show_nat_acc:
  "parse_digits 10 (show_nat n @ rest) None = parse_digits 10 rest (Some n)"
proof (induction n arbitrary: rest rule: show_nat.induct)
  case (1 n)
  show ?case
  proof (cases "n < 10")
    case True
    then show ?thesis
      by (subst show_nat.simps) (simp add: digit_char_value)
  next
    case False
    have "parse_digits 10 (show_nat n @ rest) None
        = parse_digits 10 (show_nat (n div 10) @ (digit_char (n mod 10) # rest)) None"
      using False by (subst show_nat.simps) simp
    also have "\<dots> = parse_digits 10 (digit_char (n mod 10) # rest) (Some (n div 10))"
      using "1.IH" [OF False] by simp
    also have "\<dots> = parse_digits 10 rest (Some n)"
      by (simp add: digit_char_value)
    finally show ?thesis .
  qed
qed

lemma show_nat_inj: "show_nat a = show_nat b \<Longrightarrow> a = b"
proof -
  assume "show_nat a = show_nat b"
  then have "parse_digits 10 (show_nat a @ []) None = parse_digits 10 (show_nat b @ []) None"
    by simp
  then show "a = b"
    unfolding parse_digits_show_nat_acc by simp
qed

lemma show_nat_no_dash: "CHR ''-'' \<notin> set (show_nat n)"
  using show_nat_digits [of "CHR ''-''" n] by auto

lemma split_at_last_dash:
  assumes "CHR ''-'' \<notin> set d1" and "CHR ''-'' \<notin> set d2"
  shows "m1 @ CHR ''-'' # d1 = m2 @ CHR ''-'' # d2 \<Longrightarrow> m1 = m2 \<and> d1 = d2"
proof (induction m1 arbitrary: m2)
  case Nil
  show ?case
  proof (cases m2)
    case Nil
    with Nil.prems show ?thesis by simp
  next
    case (Cons b m2')
    with Nil.prems have "d1 = m2' @ CHR ''-'' # d2" by simp
    then have "CHR ''-'' \<in> set d1" by simp
    with assms(1) show ?thesis by simp
  qed
next
  case (Cons a m1')
  show ?case
  proof (cases m2)
    case Nil
    with Cons.prems have "d2 = m1' @ CHR ''-'' # d1" by simp
    then have "CHR ''-'' \<in> set d2" by simp
    with assms(2) show ?thesis by simp
  next
    case (Cons b m2')
    with Cons.prems have "a = b" and "m1' @ CHR ''-'' # d1 = m2' @ CHR ''-'' # d2" by simp_all
    with Cons.IH [of m2'] Cons show ?thesis by simp
  qed
qed

lemma request_id_inj:
  "request_id m1 t1 = request_id m2 t2 \<longleftrightarrow> m1 = m2 \<and> t1 = t2"
proof
  assume "request_id m1 t1 = request_id m2 t2"
  then have "m1 @ CHR ''-'' # show_nat t1 = m2 @ CHR ''-'' # show_nat t2"
    by (simp add: request_id_def)
  then have "m1 = m2 \<and> show_nat t1 = show_nat t2"
    using split_at_last_dash [OF show_nat_no_dash show_nat_no_dash] by blast
  then show "m1 = m2 \<and> t1 = t2"
    using show_nat_inj by blast
next
  assume "m1 = m2 \<and> t1 = t2"
  then show "request_id m1 t1 = request_id m2 t2" by simp
qed

lemmas gateway_defs = callGateway_def signed_in_browser_def empty_browser_def constant_env_def
  answer_def getAccessToken_def getItem_def string_truthy_def null_text_def Let_def response_ok_def

text \<open>
  C9, as stated: the envelopes of two distinct calls have different ids. Two calls of the
  same method whose \<^verbatim>\<open>Date.now()\<close> reads the same millisecond build the same id: the
  request log after two such calls holds two envelopes with the id \<open>tools/list-1000\<close>.
\<close>

theorem request_id_collision_counterexample:
  "map req_body (requests (snd (callGateway example_config
       (constant_env 1000 (rpc_answer (JObject []))) ''tools/list'' (JObject [])
       (snd (callGateway example_config
          (constant_env 1000 (rpc_answer (JObject []))) ''tools/list'' (JObject [])
          (signed_in_browser ''T1''))))))
     = [JsonBody (JObject [(''jsonrpc'', JString ''2.0''), (''id'', JString ''tools/list-1000''),
                           (''method'', JString ''tools/list''), (''params'', JObject [])]),
        JsonBody (JObject [(''jsonrpc'', JString ''2.0''), (''id'', JString ''tools/list-1000''),
                           (''method'', JString ''tools/list''), (''params'', JObject [])])]"
  by (simp add: gateway_defs rpc_answer_def gateway_request_def payload_def request_id_def
      show_nat.simps digit_char_def)

text \<open>
  C9, amended: the id of an envelope is the method name, a dash and the decimal text of
  \<^verbatim>\<open>Date.now()\<close>; the ids of two calls differ exactly when the calls differ in their
  method name or in the millisecond their \<^verbatim>\<open>Date.now()\<close> reads.
\<close>

theorem request_id_unique:
  "get_prop (payload m1 p1 t1) ''id'' = Inr (JString (request_id m1 t1)) \<and>
   (get_prop (payload m1 p1 t1) ''id'' = get_prop (payload m2 p2 t2) ''id'' \<longleftrightarrow> m1 = m2 \<and> t1 = t2)"
  using request_id_inj [of m1 t1 m2 t2] by (simp add: payload_def)

theorem request_id_unique_witness:
  "get_prop (payload ''tools/list'' (JObject []) 1000) ''id'' = Inr (JString ''tools/list-1000'') \<and>
   get_prop (payload ''tools/list'' (JObject []) 1000) ''id'' \<noteq> get_prop (payload ''tools/call'' (JObject []) 1000) ''id'' \<and>
   get_prop (payload ''tools/list'' (JObject []) 1000) ''id'' \<noteq> get_prop (payload ''tools/list'' (JObject []) 1001) ''id''"
proof -
  have t: "request_id ''tools/list'' 1000 = ''tools/list-1000''"
    by (simp add: request_id_def show_nat.simps digit_char_def)
  have a: "get_prop (payload ''tools/list'' (JObject []) 1000) ''id'' = Inr (JString ''tools/list-1000'')"
    using request_id_unique [of "''tools/list''" "JObject []" 1000, THEN conjunct1] t by simp
  have b: "get_prop (payload ''tools/list'' (JObject []) 1000) ''id''
      \<noteq> get_prop (payload ''tools/call'' (JObject []) 1000) ''id''"
    using request_id_unique [of "''tools/list''" "JObject []" 1000 "''tools/call''" "JObject []" 1000, THEN conjunct2]
    by simp
  have c: "get_prop (payload ''tools/list'' (JObject []) 1000) ''id''
      \<noteq> get_prop (payload ''tools/list'' (JObject []) 1001) ''id''"
    using request_id_unique [of "''tools/list''" "JObject []" 1000 "''tools/list''" "JObject []" 1001, THEN conjunct2]
    by simp
  show ?thesis
    using a b c by (intro conjI)
qed

subsection \<open>Tool results\<close>

lemmas run_defs = runCouncil_def runDxO_def callTool_def listTools_def callGateway_def signed_in_browser_def
  empty_browser_def constant_env_def answer_def rpc_answer_def getAccessToken_def getItem_def string_truthy_def
  null_text_def Let_def response_ok_def

lemmas unwrap_defs = parse_lambda_response_def invokeTool_unwrap_def invokeTool_unwrap_truthy_def present_def
  truthy_field_def nullish_def envelope_def example_engine_def

text \<open>The source's unwrapping is the algorithm with the truthiness tests.\<close>

lemma parse_lambda_response_eq:
  "parse_lambda_response E result = invokeTool_unwrap_truthy E result"
proof (cases "nullish result")
  case True
  then show ?thesis
    by (auto simp: nullish_def parse_lambda_response_def invokeTool_unwrap_truthy_def)
next
  case False
  then obtain content where c: "get_prop result ''content'' = Inr content"
    by (cases result) (auto simp: nullish_def)
  show ?thesis
  proof (cases "truthy content")
    case False
    with c \<open>\<not> nullish result\<close> show ?thesis
      by (simp add: parse_lambda_response_def invokeTool_unwrap_truthy_def truthy_field_def)
  next
    case True
    note tc = this
    then obtain first where f: "get_index content 0 = Inr first"
      by (cases content) auto
    show ?thesis
    proof (cases "truthy first")
      case False
      then have "get_prop_optional first ''text'' = Inr JUndefined"
        by (cases first) auto
      with c f tc False \<open>\<not> nullish result\<close> show ?thesis
        by (simp add: parse_lambda_response_def invokeTool_unwrap_truthy_def truthy_field_def)
    next
      case True
      note tf = this
      then obtain tx where t: "get_prop first ''text'' = Inr tx" "get_prop_optional first ''text'' = Inr tx"
        by (cases first) auto
      show ?thesis
      proof (cases "truthy tx")
        case False
        with c f t tc tf \<open>\<not> nullish result\<close> show ?thesis
          by (simp add: parse_lambda_response_def invokeTool_unwrap_truthy_def truthy_field_def)
      next
        case True
        note tt = this
        show ?thesis
        proof (cases "JSON_parse E tx")
          case None
          with c f t tc tf tt \<open>\<not> nullish result\<close> show ?thesis
            by (simp add: parse_lambda_response_def invokeTool_unwrap_truthy_def truthy_field_def)
        next
          case (Some parsed)
          show ?thesis
          proof (cases "nullish parsed")
            case True
            note np = this
            then have "\<exists>e. get_prop parsed ''output'' = Inl e"
              by (auto simp: nullish_def)
            with Some c f t tc tf tt np \<open>\<not> nullish result\<close> show ?thesis
              by (auto simp: parse_lambda_response_def invokeTool_unwrap_truthy_def truthy_field_def)
          next
            case False
            note np = this
            then obtain out where "get_prop parsed ''output'' = Inr out"
              by (cases parsed) (auto simp: nullish_def)
            with Some c f t tc tf tt np \<open>\<not> nullish result\<close> show ?thesis
              by (simp add: parse_lambda_response_def invokeTool_unwrap_truthy_def truthy_field_def)
          qed
        qed
      qed
    qed
  qed
qed

text \<open>
  C3, as stated: the result is returned unchanged iff \<^verbatim>\<open>content\<close> is absent or its first
  element has no \<^verbatim>\<open>text\<close> field; otherwise the text is parsed, a failure raises
  \<open>MalformedToolResponseError\<close>, and \<^verbatim>\<open>parsed.output\<close> is returned when the parsed
  value has an \<^verbatim>\<open>output\<close> key. The source tests truthiness, not presence. A text that
  is the empty string is not parsed: the envelope is returned. An \<^verbatim>\<open>output\<close> of \<open>0\<close>
  is skipped: the parsed object is returned. A text \<open>null\<close> parses, and reading
  \<^verbatim>\<open>output\<close> of \<open>null\<close> throws inside the \<^verbatim>\<open>try\<close>: \<open>MalformedToolResponseError\<close>.
  A gateway answer whose result is \<open>null\<close> makes \<^verbatim>\<open>result.content\<close> throw a
  \<^verbatim>\<open>TypeError\<close>.
\<close>

theorem runCouncil_unwrap_counterexample:
  "fst (runCouncil example_engine example_config (constant_env 1000 (rpc_answer (envelope '''')))
         (JString ''Q'') (signed_in_browser ''T1'')) = Inr (envelope '''') \<and>
   invokeTool_unwrap example_engine (envelope '''') = Inl MalformedToolResponseError \<and>
   fst (runCouncil example_engine example_config (constant_env 1000 (rpc_answer (envelope ''{\"output\":0}'')))
         (JString ''Q'') (signed_in_browser ''T1'')) = Inr (JObject [(''output'', JNumber 0)]) \<and>
   invokeTool_unwrap example_engine (envelope ''{\"output\":0}'') = Inr (JNumber 0) \<and>
   fst (runCouncil example_engine example_config (constant_env 1000 (rpc_answer (envelope ''null'')))
         (JString ''Q'') (signed_in_browser ''T1'')) = Inl MalformedToolResponseError \<and>
   invokeTool_unwrap example_engine (envelope ''null'') = Inr JNull \<and>
   fst (runCouncil example_engine example_config (constant_env 1000 (rpc_answer JNull))
         (JString ''Q'') (signed_in_browser ''T1'')) = Inl (NullishTypeError JNull ''content'') \<and>
   invokeTool_unwrap example_engine JNull = Inr JNull"
  by (simp add: run_defs unwrap_defs)

text \<open>
  C3, amended: \<^verbatim>\<open>runCouncil\<close> and \<^verbatim>\<open>runDxO\<close> pass an error of the call on, and unwrap
  its result as follows. A result that is \<open>null\<close> or \<open>undefined\<close> raises a
  \<^verbatim>\<open>TypeError\<close>. If \<^verbatim>\<open>result.content\<close>, its first element or that element's \<^verbatim>\<open>text\<close>
  is falsy (absent, \<open>null\<close>, \<open>false\<close>, \<open>0\<close> or the empty string), the result is
  returned unchanged. Otherwise the text is parsed as JSON; a parse failure, and a parsed
  \<open>null\<close>, raise \<open>MalformedToolResponseError\<close>; else \<^verbatim>\<open>parsed.output\<close> is returned
  when it is truthy, and the parsed value itself otherwise.
\<close>

theorem runCouncil_unwrap:
  "runCouncil E cfg env question w =
     (case callTool cfg env ''deep-research-lambda___invokeCouncil'' (JObject [(''question'', question)]) w of
        (Inl e, w') \<Rightarrow> (Inl e, w')
      | (Inr result, w') \<Rightarrow> (invokeTool_unwrap_truthy E result, w')) \<and>
   runDxO E cfg env question w =
     (case callTool cfg env ''deep-research-lambda___invokeDxO'' (JObject [(''question'', question)]) w of
        (Inl e, w') \<Rightarrow> (Inl e, w')
      | (Inr result, w') \<Rightarrow> (invokeTool_unwrap_truthy E result, w'))"
  by (simp add: runCouncil_def runDxO_def parse_lambda_response_eq split: prod.split sum.split)

theorem runCouncil_unwrap_witness:
  "fst (runCouncil example_engine example_config
         (constant_env 1000 (rpc_answer (envelope ''{\"output\":{\"question\":\"Q\"}}'')))
         (JString ''Q'') (signed_in_browser ''T1'')) = Inr (JObject [(''question'', JString ''Q'')]) \<and>
   fst (runCouncil example_engine example_config
         (constant_env 1000 (rpc_answer (envelope ''{\"question\":\"Q\"}'')))
         (JString ''Q'') (signed_in_browser ''T1'')) = Inr (JObject [(''question'', JString ''Q'')]) \<and>
   fst (runCouncil example_engine example_config
         (constant_env 1000 (rpc_answer (envelope ''not json'')))
         (JString ''Q'') (signed_in_browser ''T1'')) = Inl MalformedToolResponseError \<and>
   fst (runDxO example_engine example_config
         (constant_env 1000 (rpc_answer (JObject [(''question'', JString ''Q'')])))
         (JString ''Q'') (signed_in_browser ''T1'')) = Inr (JObject [(''question'', JString ''Q'')])"
proof -
  have call: "callTool example_config (constant_env 1000 (rpc_answer r)) nm (JObject [(''question'', JString ''Q'')])
        (signed_in_browser ''T1'')
      = (get_prop (JObject [(''jsonrpc'', JString ''2.0''), (''id'', JString ''1''), (''result'', r)]) ''result'',
         (signed_in_browser ''T1'')\<lparr>requests := [gateway_request ''T1''
            (payload ''tools/call'' (JObject [(''name'', JString nm), (''arguments'', JObject [(''question'', JString ''Q'')])]) 1000)]\<rparr>)"
    for r nm
    by (simp add: callTool_def callGateway_def signed_in_browser_def empty_browser_def constant_env_def answer_def
        rpc_answer_def getAccessToken_def getItem_def string_truthy_def null_text_def Let_def response_ok_def)
  show ?thesis
    unfolding runCouncil_unwrap [THEN conjunct1] runCouncil_unwrap [THEN conjunct2] call
    by (simp add: invokeTool_unwrap_truthy_def truthy_field_def nullish_def envelope_def example_engine_def)
qed

subsection \<open>Health check\<close>

lemma healthCheck_eq:
  "healthCheck E cfg env w =
     (Inr (case fst (listTools cfg env w) of
             Inl e \<Rightarrow> health_error E e
           | Inr tools \<Rightarrow>
               if nullish tools then health_error E (NullishTypeError tools ''tools'')
               else health_ok (tool_count tools)),
      snd (listTools cfg env w))"
proof (cases "listTools cfg env w")
  case (Pair r w')
  show ?thesis
  proof (cases r)
    case (Inl e)
    with Pair show ?thesis by (simp add: healthCheck_def)
  next
    case (Inr tools)
    show ?thesis
    proof (cases "nullish tools")
      case True
      with Pair Inr show ?thesis by (auto simp: healthCheck_def nullish_def)
    next
      case False
      then obtain tt where t: "get_prop tools ''tools'' = Inr tt"
        by (cases tools) (auto simp: nullish_def)
      show ?thesis
        using Pair Inr False t
        by (cases tt) (auto simp: healthCheck_def tool_count_def present_def truthy_field_def)
    qed
  qed
qed

text \<open>
  C7, as stated: \<^verbatim>\<open>healthCheck()\<close> never raises; when \<^verbatim>\<open>listTools()\<close> succeeds it
  reports \<open>healthy\<close>, and when it fails it reports \<open>error\<close> with the message. When
  the gateway answers with the result \<open>null\<close>, \<^verbatim>\<open>listTools()\<close> succeeds with \<open>null\<close>,
  the read of \<^verbatim>\<open>tools.tools\<close> throws inside the \<^verbatim>\<open>try\<close>, and the report is \<open>error\<close>.
\<close>

theorem healthCheck_null_result_counterexample:
  "fst (listTools example_config (constant_env 1000 (rpc_answer JNull)) (signed_in_browser ''T1'')) = Inr JNull \<and>
   fst (healthCheck example_engine example_config (constant_env 1000 (rpc_answer JNull)) (signed_in_browser ''T1''))
     = Inr (JObject [(''status'', JString ''error''),
                     (''error'', JString ''Cannot read properties of null or undefined: tools'')])"
  by (simp add: healthCheck_def health_error_def run_defs example_engine_def)

text \<open>
  C7, amended: \<^verbatim>\<open>healthCheck()\<close> never raises, and leaves the browser as
  \<^verbatim>\<open>listTools()\<close> left it. When \<^verbatim>\<open>listTools()\<close> fails, it returns an object with status
  \<open>error\<close> and the error's message. When \<^verbatim>\<open>listTools()\<close> returns \<open>null\<close> or
  \<open>undefined\<close>, it returns status \<open>error\<close> with the message of the \<^verbatim>\<open>TypeError\<close>.
  When \<^verbatim>\<open>listTools()\<close> returns any other value, it returns status \<open>healthy\<close> with the
  tool count \<^verbatim>\<open>tools.tools?.length || 0\<close>, the length of the array \<^verbatim>\<open>tools.tools\<close>.
\<close>

theorem healthCheck_never_raises:
  "fst (healthCheck E cfg env w) =
     Inr (case fst (listTools cfg env w) of
            Inl e \<Rightarrow> health_error E e
          | Inr tools \<Rightarrow>
              if nullish tools then health_error E (NullishTypeError tools ''tools'')
              else health_ok (tool_count tools)) \<and>
   snd (healthCheck E cfg env w) = snd (listTools cfg env w) \<and>
   get_prop (health_error E e) ''status'' = Inr (JString ''error'') \<and>
   get_prop (health_error E e) ''error'' = Inr (JString (message E e)) \<and>
   get_prop (health_ok n) ''status'' = Inr (JString ''healthy'') \<and>
   get_prop (health_ok n) ''tools'' = Inr n \<and>
   tool_count (JObject [(''tools'', JArray xs)]) = JNumber (of_nat (length xs))"
  by (simp add: healthCheck_eq health_error_def health_ok_def tool_count_def present_def truthy_field_def)

theorem healthCheck_never_raises_witness:
  "fst (healthCheck example_engine example_config
         (constant_env 1000 (rpc_answer (JObject [(''tools'', JArray [JObject [], JObject []])])))
         (signed_in_browser ''T1''))
     = Inr (JObject [(''status'', JString ''healthy''), (''gateway'', JString ''connected''), (''tools'', JNumber 2)]) \<and>
   fst (healthCheck example_engine example_config (constant_env 1000 (answer 500 ''boom'' None))
         (signed_in_browser ''T1''))
     = Inr (JObject [(''status'', JString ''error''), (''error'', JString ''Gateway error 500: boom'')])"
proof -
  have a: "fst (listTools example_config
         (constant_env 1000 (rpc_answer (JObject [(''tools'', JArray [JObject [], JObject []])])))
         (signed_in_browser ''T1'')) = Inr (JObject [(''tools'', JArray [JObject [], JObject []])])"
    by (simp add: run_defs)
  have b: "fst (listTools example_config (constant_env 1000 (answer 500 ''boom'' None)) (signed_in_browser ''T1''))
      = Inl (GatewayHttpError 500 ''boom'')"
    by (simp add: run_defs)
  have c: "tool_count (JObject [(''tools'', JArray [JObject [], JObject []])]) = JNumber 2"
    using healthCheck_never_raises [of _ _ _ _ _ _ "[JObject [], JObject []]"] by simp
  have d: "show_nat 500 = ''500''"
    by (simp add: show_nat.simps digit_char_def)
  show ?thesis
    unfolding healthCheck_never_raises [THEN conjunct1] a b
    by (simp add: c d nullish_def health_ok_def health_error_def)
qed

end
